theory Spec2Isabelle
  imports Complex_Main
begin

section \<open>Python values and faults\<close>

text \<open>
  The exceptions the modelled functions can raise. A function that can raise returns
  \<open>py_error + 'a\<close>, with \<open>Inl\<close> for the exception.
\<close>

datatype py_error = IndexError | ZeroDivisionError | ValueError | KeyError

text \<open>
  A float of numpy and pandas: a finite number, one of the two infinities, or NaN (which
  pandas also reads as "missing"). Finite numbers are real numbers: rounding, overflow
  and the sign of zero are not modelled (a division by zero takes the sign of its
  numerator, as a division by \<open>+0.0\<close> does).
\<close>

datatype fl = Fin real | PInf | NInf | NaN

fun fl_neg :: "fl \<Rightarrow> fl" where
  "fl_neg (Fin a) = Fin (- a)"
| "fl_neg PInf = NInf"
| "fl_neg NInf = PInf"
| "fl_neg NaN = NaN"

fun fl_add :: "fl \<Rightarrow> fl \<Rightarrow> fl" where
  "fl_add NaN y = NaN"
| "fl_add x NaN = NaN"
| "fl_add (Fin a) (Fin b) = Fin (a + b)"
| "fl_add PInf NInf = NaN"
| "fl_add NInf PInf = NaN"
| "fl_add PInf y = PInf"
| "fl_add NInf y = NInf"
| "fl_add (Fin a) y = y"

definition fl_sub :: "fl \<Rightarrow> fl \<Rightarrow> fl" where
  "fl_sub x y = fl_add x (fl_neg y)"

text \<open>The sign of a float that is not NaN: \<open>-1\<close>, \<open>0\<close> or \<open>1\<close>.\<close>

fun fl_sgn :: "fl \<Rightarrow> real" where
  "fl_sgn (Fin a) = sgn a"
| "fl_sgn PInf = 1"
| "fl_sgn NInf = - 1"
| "fl_sgn NaN = 0"

definition inf_of_sign :: "real \<Rightarrow> fl" where
  "inf_of_sign s = (if s = 0 then NaN else if 0 < s then PInf else NInf)"

fun fl_mul :: "fl \<Rightarrow> fl \<Rightarrow> fl" where
  "fl_mul NaN y = NaN"
| "fl_mul x NaN = NaN"
| "fl_mul (Fin a) (Fin b) = Fin (a * b)"
| "fl_mul x y = inf_of_sign (fl_sgn x * fl_sgn y)"

fun fl_div :: "fl \<Rightarrow> fl \<Rightarrow> fl" where
  "fl_div NaN y = NaN"
| "fl_div x NaN = NaN"
| "fl_div (Fin a) (Fin b) = (if b = 0 then inf_of_sign a else Fin (a / b))"
| "fl_div (Fin a) y = Fin 0"
| "fl_div x (Fin b) = (if b < 0 then fl_neg x else x)"
| "fl_div x y = NaN"

fun fl_abs :: "fl \<Rightarrow> fl" where
  "fl_abs (Fin a) = Fin \<bar>a\<bar>"
| "fl_abs PInf = PInf"
| "fl_abs NInf = PInf"
| "fl_abs NaN = NaN"

fun fl_sqrt :: "fl \<Rightarrow> fl" where
  "fl_sqrt (Fin a) = (if a < 0 then NaN else Fin (sqrt a))"
| "fl_sqrt PInf = PInf"
| "fl_sqrt NInf = NaN"
| "fl_sqrt NaN = NaN"

text \<open>Comparisons: every comparison with NaN is false.\<close>

fun fl_less :: "fl \<Rightarrow> fl \<Rightarrow> bool" where
  "fl_less NaN y = False"
| "fl_less x NaN = False"
| "fl_less (Fin a) (Fin b) = (a < b)"
| "fl_less PInf y = False"
| "fl_less x PInf = True"
| "fl_less NInf y = (y \<noteq> NInf)"
| "fl_less x NInf = False"

fun fl_le :: "fl \<Rightarrow> fl \<Rightarrow> bool" where
  "fl_le NaN y = False"
| "fl_le x NaN = False"
| "fl_le x y = (x = y \<or> fl_less x y)"

definition isna :: "fl \<Rightarrow> bool" where
  "isna x = (x = NaN)"

section \<open>Bar strings\<close>

text \<open>
  A bar string is a Python \<open>str\<close> whose characters are code points below 256. Among
  these, \<open>str.isspace\<close> holds for the ASCII white space, the four separators 28 to 31,
  NEL (133) and the no-break space (160); \<open>int\<close> accepts the ASCII digits only.
\<close>

definition py_isspace :: "char \<Rightarrow> bool" where
  "py_isspace c = ((of_char c :: nat) \<in> {9, 10, 11, 12, 13, 28, 29, 30, 31, 32, 133, 160})"

definition py_strip :: "string \<Rightarrow> string" where
  "py_strip s = rev (dropWhile py_isspace (rev (dropWhile py_isspace s)))"

definition is_digit :: "char \<Rightarrow> bool" where
  "is_digit c = (48 \<le> (of_char c :: nat) \<and> (of_char c :: nat) \<le> 57)"

definition digit_val :: "char \<Rightarrow> int" where
  "digit_val c = int (of_char c) - 48"

text \<open>
  The digits of a decimal literal: one digit or more, a single underscore allowed
  between two digits. The flag says whether the previous character was a digit.
\<close>

fun parse_digits :: "int \<Rightarrow> bool \<Rightarrow> string \<Rightarrow> int option" where
  "parse_digits acc prev [] = (if prev then Some acc else None)"
| "parse_digits acc prev (c # cs) =
     (if is_digit c then parse_digits (10 * acc + digit_val c) True cs
      else if c = CHR ''_'' \<and> prev then parse_digits acc False cs
      else None)"

text \<open>
  Python's \<open>int(s)\<close> on a string; \<open>None\<close> is its ValueError. The bound that
  newer Pythons put on the number of digits is not modelled.
\<close>

definition py_int :: "string \<Rightarrow> int option" where
  "py_int s =
     (case py_strip s of
        [] \<Rightarrow> None
      | c # cs \<Rightarrow>
          if c = CHR ''-'' then map_option uminus (parse_digits 0 False cs)
          else if c = CHR ''+'' then parse_digits 0 False cs
          else parse_digits 0 False (c # cs))"

text \<open>
  \<open>str.lower\<close> on one character, as far as the comparisons with \<open>m\<close>, \<open>h\<close> and
  \<open>d\<close> can tell: the ASCII capitals are mapped to their small letters, and no other
  character's lower case is one of these three. A capital and its small letter differ
  by 32, the sixth bit of the code.
\<close>

definition py_lower :: "char \<Rightarrow> char" where
  "py_lower c =
     (if 65 \<le> (of_char c :: nat) \<and> (of_char c :: nat) \<le> 90
      then (case c of Char b0 b1 b2 b3 b4 b5 b6 b7 \<Rightarrow> Char b0 b1 b2 b3 b4 True b6 b7)
      else c)"

text \<open>
  The two locals that \<open>_bar_to_steps\<close> and \<open>_bar_to_minutes\<close> compute first, on a
  non-empty string: \<open>unit = bar[-1].lower()\<close>, and \<open>val = int(bar[:-1])\<close> with the
  \<open>try\<close>'s fallback to \<open>1\<close>.
\<close>

definition bar_unit :: "string \<Rightarrow> char" where
  "bar_unit bar = py_lower (last bar)"

definition bar_val :: "string \<Rightarrow> int" where
  "bar_val bar = (case py_int (butlast bar) of Some v \<Rightarrow> v | None \<Rightarrow> 1)"

text \<open>
  \<open>_bar_to_steps\<close> (ai/core.py). \<open>bar[-1]\<close> raises IndexError on the empty string,
  and \<open>horizon_min // val\<close> raises ZeroDivisionError when \<open>val\<close> is \<open>0\<close>; neither
  is inside the \<open>try\<close>. Python's \<open>//\<close> on integers rounds down, as \<open>div\<close> does.
\<close>

definition bar_to_steps :: "string \<Rightarrow> int \<Rightarrow> py_error + int" where
  "bar_to_steps bar horizon_min =
     (if bar = [] then Inl IndexError
      else let unit = bar_unit bar; val = bar_val bar in
        if unit = CHR ''m'' then
          (if val = 0 then Inl ZeroDivisionError else Inr (max 1 (horizon_min div val)))
        else if unit = CHR ''h'' then
          Inr (max 1 ((horizon_min div 60) div max 1 val))
        else Inr (max 1 horizon_min))"

text \<open>\<open>_bar_to_minutes\<close> (ai/backtest.py), which strips the string first.\<close>

definition bar_to_minutes :: "string \<Rightarrow> py_error + int" where
  "bar_to_minutes bar0 =
     (let bar = py_strip bar0 in
      if bar = [] then Inl IndexError
      else let unit = bar_unit bar; val = bar_val bar in
        if unit = CHR ''m'' then Inr (max 1 val)
        else if unit = CHR ''h'' then Inr (max 1 (60 * val))
        else if unit = CHR ''d'' then Inr (max 1 (60 * 24 * val))
        else Inr 1)"

section \<open>Series of pandas\<close>

text \<open>
  A candle frame as \<open>fetch_candles\<close> returns it: rows in ascending time under the
  index \<open>0, 1, ..., n - 1\<close>, the five numeric columns as floats (a field that did not
  parse is NaN). A column is the list of its values in row order.
\<close>

record candle =
  ts :: int
  open_px :: fl
  high :: fl
  low :: fl
  close :: fl
  vol :: fl

text \<open>
  \<open>Series.shift(periods)\<close>: the value of row \<open>i\<close> is taken from row \<open>i - periods\<close>,
  and is missing when there is no such row.
\<close>

definition shift_opt :: "int \<Rightarrow> 'a list \<Rightarrow> 'a option list" where
  "shift_opt periods xs =
     map (\<lambda>i. let j = int i - periods in
               if 0 \<le> j \<and> j < int (length xs) then Some (xs ! nat j) else None)
       [0..<length xs]"

definition shift :: "int \<Rightarrow> fl list \<Rightarrow> fl list" where
  "shift periods xs = map (\<lambda>v. case v of None \<Rightarrow> NaN | Some x \<Rightarrow> x) (shift_opt periods xs)"

definition fillna :: "fl \<Rightarrow> fl list \<Rightarrow> fl list" where
  "fillna v xs = map (\<lambda>x. if isna x then v else x) xs"

text \<open>\<open>ffill\<close>: a missing value takes the last value before it that is not missing.\<close>

fun ffill_from :: "fl \<Rightarrow> fl list \<Rightarrow> fl list" where
  "ffill_from prev [] = []"
| "ffill_from prev (x # xs) =
     (if isna x then prev # ffill_from prev xs else x # ffill_from x xs)"

definition ffill :: "fl list \<Rightarrow> fl list" where
  "ffill xs = ffill_from NaN xs"

text \<open>\<open>fillna(method="bfill")\<close>: the same from the right.\<close>

definition bfill :: "fl list \<Rightarrow> fl list" where
  "bfill xs = rev (ffill (rev xs))"

text \<open>
  \<open>Series.pct_change(periods)\<close>, with the padding of missing values that is its
  default in every pandas that still accepts \<open>fillna(method=...)\<close>:
  \<open>data / data.shift(periods) - 1\<close> on the forward-filled data.
\<close>

definition pct_change :: "nat \<Rightarrow> fl list \<Rightarrow> fl list" where
  "pct_change periods xs =
     (let data = ffill xs in
      map2 (\<lambda>a b. fl_sub (fl_div a b) (Fin 1)) data (shift (int periods) data))"

text \<open>
  \<open>Series.rolling(w).mean()\<close>: the mean of the last \<open>w\<close> values, missing unless all
  \<open>w\<close> of them are there; the rolling window reads an infinity as missing.
\<close>

fun is_fin :: "fl \<Rightarrow> bool" where
  "is_fin (Fin a) = True"
| "is_fin x = False"

fun fin_val :: "fl \<Rightarrow> real" where
  "fin_val (Fin a) = a"
| "fin_val x = 0"

definition window_mean :: "fl list \<Rightarrow> fl" where
  "window_mean w =
     (if list_all is_fin w then Fin (sum_list (map fin_val w) / real (length w)) else NaN)"

definition rolling_mean :: "nat \<Rightarrow> fl list \<Rightarrow> fl list" where
  "rolling_mean w xs =
     map (\<lambda>i. if i + 1 < w then NaN else window_mean (take w (drop (i + 1 - w) xs)))
       [0..<length xs]"

text \<open>
  Selection by a boolean mask, \<open>frame[mask]\<close>: the rows whose mask is true, each with
  its index label. The mask is a column of the same frame, hence of its length.
\<close>

definition boolean_mask :: "bool list \<Rightarrow> 'a list \<Rightarrow> (nat \<times> 'a) list" where
  "boolean_mask flags rows =
     map (\<lambda>i. (i, rows ! i)) (filter (\<lambda>i. flags ! i) [0..<length rows])"

section \<open>Features and labels\<close>

record feat_row =
  ret_1 :: fl
  ret_3 :: fl
  ret_5 :: fl
  ma_5 :: fl
  ma_10 :: fl
  ma_ratio :: fl
  f_vol :: fl
  vol_ma_10 :: fl
  vol_ratio :: fl
  hl_range :: fl

definition eps9 :: fl where
  "eps9 = Fin (1 / 10 ^ 9)"

text \<open>The feature frame of \<open>build_from_candles\<close>, one row for each candle.\<close>

definition features :: "candle list \<Rightarrow> feat_row list" where
  "features df =
     (let closes = map close df;
          c_ret_1 = fillna (Fin 0) (pct_change 1 closes);
          c_ret_3 = fillna (Fin 0) (pct_change 3 closes);
          c_ret_5 = fillna (Fin 0) (pct_change 5 closes);
          c_ma_5 = bfill (rolling_mean 5 closes);
          c_ma_10 = bfill (rolling_mean 10 closes);
          c_ma_ratio =
            fillna (Fin 0)
              (map2 (\<lambda>a b. fl_sub (fl_div a (fl_add b eps9)) (Fin 1)) c_ma_5 c_ma_10);
          c_vol = fillna (Fin 0) (map vol df);
          c_vol_ma_10 = bfill (rolling_mean 10 c_vol);
          c_vol_ratio =
            fillna (Fin 0) (map2 (\<lambda>v m. fl_div v (fl_add m eps9)) c_vol c_vol_ma_10);
          c_hl_range =
            map (\<lambda>c. fl_div (fl_sub (high c) (low c)) (fl_add (close c) eps9)) df
      in map (\<lambda>i. \<lparr>ret_1 = c_ret_1 ! i, ret_3 = c_ret_3 ! i, ret_5 = c_ret_5 ! i,
                    ma_5 = c_ma_5 ! i, ma_10 = c_ma_10 ! i, ma_ratio = c_ma_ratio ! i,
                    f_vol = c_vol ! i, vol_ma_10 = c_vol_ma_10 ! i,
                    vol_ratio = c_vol_ratio ! i, hl_range = c_hl_range ! i\<rparr>)
           [0..<length df])"

text \<open>
  The label columns of \<open>build_from_candles\<close>: \<open>future = close.shift(-horizon_steps)\<close>,
  the forward return with its missing values set to \<open>0\<close>, the class \<open>y >= 0\<close>, and the
  mask \<open>~future.isna()\<close>.
\<close>

definition future_close :: "candle list \<Rightarrow> int \<Rightarrow> fl list" where
  "future_close df horizon_steps = shift (- horizon_steps) (map close df)"

definition y_cls :: "candle list \<Rightarrow> int \<Rightarrow> int list" where
  "y_cls df horizon_steps =
     (let y = fillna (Fin 0)
                (map2 (\<lambda>f c. fl_sub (fl_div f c) (Fin 1))
                   (future_close df horizon_steps) (map close df))
      in map (\<lambda>v. if fl_le (Fin 0) v then 1 else 0) y)"

definition valid_idx :: "candle list \<Rightarrow> int \<Rightarrow> bool list" where
  "valid_idx df horizon_steps = map (\<lambda>f. \<not> isna f) (future_close df horizon_steps)"

text \<open>\<open>FeatureBuilder.build_from_candles\<close>: the pair \<open>(feat[valid_idx], y_cls[valid_idx])\<close>.\<close>

definition build_from_candles ::
  "candle list \<Rightarrow> int \<Rightarrow> (nat \<times> feat_row) list \<times> (nat \<times> int) list" where
  "build_from_candles df horizon_steps =
     (boolean_mask (valid_idx df horizon_steps) (features df),
      boolean_mask (valid_idx df horizon_steps) (y_cls df horizon_steps))"

section \<open>Backtest\<close>

text \<open>
  \<open>BacktestConfig\<close>. Its numbers are finite floats, modelled as reals; the plot path
  plays no part in \<open>run_backtest\<close> and is left out.
\<close>

record BacktestConfig =
  inst :: string
  bar :: string
  horizon :: int
  limit :: int
  thr_long :: real
  thr_short :: real
  initial :: real
  fee_bps :: real
  slip_bps :: real

text \<open>
  \<open>_signals_from_probs\<close>: an array of zeros, then two assignments under a mask, the
  second overriding the first.
\<close>

definition masked_assign :: "fl list \<Rightarrow> bool list \<Rightarrow> fl \<Rightarrow> fl list" where
  "masked_assign xs flags v = map2 (\<lambda>x m. if m then v else x) xs flags"

definition signals_from_probs :: "fl list \<Rightarrow> fl \<Rightarrow> fl \<Rightarrow> fl list" where
  "signals_from_probs probs t_long t_short =
     (let sig0 = map (\<lambda>p. Fin 0) probs;
          sig1 = masked_assign sig0 (map (\<lambda>p. fl_less t_long p) probs) (Fin 1);
          sig2 = masked_assign sig1 (map (\<lambda>p. fl_less p t_short) probs) (Fin (- 1))
      in sig2)"

text \<open>
  \<open>_trade_stats_from_series\<close>. A series is the list of its (label, value) pairs.
  \<open>astype(int)\<close> raises on a value that is not finite and truncates towards zero; a
  value outside the 64-bit range becomes the smallest 64-bit integer, as on x86-64
  (some non-zero integer on every platform). The local \<open>changes\<close> is never read and
  is left out.
\<close>

definition trunc_int64 :: "real \<Rightarrow> int" where
  "trunc_int64 a =
     (let t = (if 0 \<le> a then \<lfloor>a\<rfloor> else \<lceil>a\<rceil>) in
      if - (2 ^ 63) \<le> t \<and> t < 2 ^ 63 then t else - (2 ^ 63))"

definition astype_int :: "fl list \<Rightarrow> py_error + int list" where
  "astype_int xs =
     (if list_all is_fin xs then Inr (map (\<lambda>x. trunc_int64 (fin_val x)) xs)
      else Inl ValueError)"

definition shift_fill0 :: "int \<Rightarrow> int list \<Rightarrow> int list" where
  "shift_fill0 periods xs =
     map (\<lambda>v. case v of None \<Rightarrow> 0 | Some x \<Rightarrow> x) (shift_opt periods xs)"

text \<open>
  \<open>index[flags]\<close> with a boolean array: IndexError unless the lengths agree, else the
  labels whose flag is true.
\<close>

definition index_mask :: "nat list \<Rightarrow> bool list \<Rightarrow> py_error + nat list" where
  "index_mask labels flags =
     (if length flags \<noteq> length labels then Inl IndexError
      else Inr (map fst (filter snd (zip labels flags))))"

text \<open>
  \<open>series.loc[label]\<close> read as a number: the value under the label when the label
  occurs once. Under a label that occurs more than once \<open>loc\<close> gives a series, and the
  comparison of the loop, used as a condition, raises ValueError.
\<close>

definition loc :: "(nat \<times> fl) list \<Rightarrow> nat \<Rightarrow> py_error + fl" where
  "loc s l =
     (case filter (\<lambda>kv. fst kv = l) s of
        [] \<Rightarrow> Inl KeyError
      | [kv] \<Rightarrow> Inr (snd kv)
      | _ \<Rightarrow> Inl ValueError)"

text \<open>The loop \<open>for i in range(n)\<close>, over the pairs \<open>(start_idx[i], end_idx[i])\<close>.\<close>

fun wins_loop :: "(nat \<times> fl) list \<Rightarrow> nat \<Rightarrow> (nat \<times> nat) list \<Rightarrow> py_error + nat" where
  "wins_loop eq wins [] = Inr wins"
| "wins_loop eq wins ((s, e) # rest) =
     (case loc eq e of
        Inl err \<Rightarrow> Inl err
      | Inr ve \<Rightarrow>
          (case loc eq s of
             Inl err \<Rightarrow> Inl err
           | Inr vs \<Rightarrow> wins_loop eq (if fl_less vs ve then wins + 1 else wins) rest))"

definition trade_stats_from_series ::
  "(nat \<times> fl) list \<Rightarrow> (nat \<times> fl) list \<Rightarrow> py_error + (nat \<times> real)" where
  "trade_stats_from_series equity positions =
     (case astype_int (fillna (Fin 0) (map snd positions)) of
        Inl err \<Rightarrow> Inl err
      | Inr pos \<Rightarrow>
          let starts = map2 (\<lambda>p q. p = 0 \<and> q \<noteq> 0) (shift_fill0 1 pos) pos;
              ends = map2 (\<lambda>q p. q \<noteq> 0 \<and> p = 0) pos (shift_fill0 (- 1) pos)
          in
          (case index_mask (map fst equity) starts of
             Inl err \<Rightarrow> Inl err
           | Inr start_idx \<Rightarrow>
               (case index_mask (map fst equity) ends of
                  Inl err \<Rightarrow> Inl err
                | Inr end_idx \<Rightarrow>
                    let n = min (length start_idx) (length end_idx) in
                    (case wins_loop equity 0 (zip (take n start_idx) (take n end_idx)) of
                       Inl err \<Rightarrow> Inl err
                     | Inr wins \<Rightarrow>
                         let total = (if n > 0 then n else 1);
                             win_rate = 100 * real wins / real total
                         in Inr (n, win_rate)))))"

text \<open>\<open>_annualization_factor\<close>; the minutes of a bar are at least \<open>1\<close>.\<close>

definition annualization_factor :: "string \<Rightarrow> py_error + real" where
  "annualization_factor b =
     (case bar_to_minutes b of
        Inl err \<Rightarrow> Inl err
      | Inr mins \<Rightarrow> Inr (sqrt (real_of_int (365 * 24 * 60) / real_of_int mins)))"

text \<open>numpy: \<open>roll\<close>, \<open>cumprod\<close>, \<open>mean\<close> and \<open>std\<close> of a one-dimensional array.\<close>

definition np_roll :: "'a list \<Rightarrow> nat \<Rightarrow> 'a list" where
  "np_roll xs k =
     (if xs = [] then []
      else let r = k mod length xs in drop (length xs - r) xs @ take (length xs - r) xs)"

fun cumprod_from :: "fl \<Rightarrow> fl list \<Rightarrow> fl list" where
  "cumprod_from acc [] = []"
| "cumprod_from acc (x # xs) = fl_mul acc x # cumprod_from (fl_mul acc x) xs"

definition np_cumprod :: "fl list \<Rightarrow> fl list" where
  "np_cumprod xs = cumprod_from (Fin 1) xs"

definition np_mean :: "fl list \<Rightarrow> fl" where
  "np_mean xs = fl_div (foldl fl_add (Fin 0) xs) (Fin (real (length xs)))"

definition np_std :: "fl list \<Rightarrow> fl" where
  "np_std xs =
     (let m = np_mean xs in
      fl_sqrt (np_mean (map (\<lambda>x. fl_mul (fl_abs (fl_sub x m)) (fl_abs (fl_sub x m))) xs)))"

text \<open>
  The fitted scaler and classifier of \<open>run_backtest\<close> are outside the repository. Both
  act on each row by itself, so the pair is a function from a feature row to the
  probability of an up move; a model that rejects its input is not modelled.

  The locals of \<open>run_backtest\<close> up to the net return of each period (its lines up to
  \<open>strat_ret -= turnover * cost_bps\<close>). \<open>sig_shift[0] = 0\<close> raises IndexError on an
  empty array.
\<close>

record bt_locals =
  X :: "(nat \<times> feat_row) list"
  ret :: "fl list"
  sig :: "fl list"
  sig_shift :: "fl list"
  gross_ret :: "fl list"
  turnover :: "fl list"
  cost_bps :: real
  strat_ret :: "fl list"

definition reindex :: "fl list \<Rightarrow> nat list \<Rightarrow> fl list" where
  "reindex xs labels = map (\<lambda>l. if l < length xs then xs ! l else NaN) labels"

definition backtest_returns ::
  "candle list \<Rightarrow> (feat_row \<Rightarrow> fl) \<Rightarrow> BacktestConfig \<Rightarrow> py_error + bt_locals" where
  "backtest_returns df clf cfg =
     (case bar_to_steps (bar cfg) (horizon cfg) of
        Inl err \<Rightarrow> Inl err
      | Inr steps \<Rightarrow>
          let Xy = build_from_candles df steps;
              rows = fst Xy;
              prices = map close df;
              r = fillna (Fin 0) (reindex (pct_change 1 prices) (map fst rows));
              probs = map (\<lambda>row. clf (snd row)) rows;
              sg = signals_from_probs probs (Fin (thr_long cfg)) (Fin (thr_short cfg));
              rolled = np_roll sg 1
          in
          if rolled = [] then Inl IndexError
          else
            let shifted = rolled[0 := Fin 0];
                gross = map2 fl_mul shifted r;
                turn = map fl_abs (map2 fl_sub sg shifted);
                cost = (fee_bps cfg + slip_bps cfg) / 10000;
                net = map2 fl_sub gross (map (\<lambda>t. fl_mul t (Fin cost)) turn)
            in Inr \<lparr>X = rows, ret = r, sig = sg, sig_shift = shifted, gross_ret = gross,
                     turnover = turn, cost_bps = cost, strat_ret = net\<rparr>)"

text \<open>\<open>run_backtest\<close>: the equity curve, the Sharpe ratio, the trades and the result.\<close>

definition sharpe_ratio :: "fl list \<Rightarrow> real \<Rightarrow> fl" where
  "sharpe_ratio net ann_factor =
     (let mean_r = np_mean net;
          std_r = fl_add (np_std net) (Fin (1 / 10 ^ 12))
      in if fl_less (Fin 0) std_r then fl_mul (fl_div mean_r std_r) (Fin ann_factor)
         else Fin 0)"

record bt_result =
  samples :: nat
  trades :: nat
  sharpe :: fl
  win_rate_pct :: real
  final_equity :: fl
  equity :: "(nat \<times> fl) list"
  positions :: "(nat \<times> fl) list"

definition run_backtest ::
  "candle list \<Rightarrow> (feat_row \<Rightarrow> fl) \<Rightarrow> BacktestConfig \<Rightarrow> py_error + bt_result" where
  "run_backtest df clf cfg =
     (case backtest_returns df clf cfg of
        Inl err \<Rightarrow> Inl err
      | Inr L \<Rightarrow>
          let idx = map fst (X L);
              eq = zip idx (map (fl_mul (Fin (initial cfg)))
                              (np_cumprod (map (fl_add (Fin 1)) (strat_ret L))))
          in
          (case annualization_factor (bar cfg) of
             Inl err \<Rightarrow> Inl err
           | Inr ann_factor \<Rightarrow>
               let pos = zip idx (sig L) in
               (case trade_stats_from_series eq pos of
                  Inl err \<Rightarrow> Inl err
                | Inr tw \<Rightarrow>
                    Inr \<lparr>samples = length (X L), trades = fst tw,
                         sharpe = sharpe_ratio (strat_ret L) ann_factor,
                         win_rate_pct = snd tw,
                         final_equity = (if eq = [] then Fin (initial cfg) else snd (last eq)),
                         equity = eq, positions = pos\<rparr>)))"

section \<open>Example inputs\<close>

text \<open>
  The defaults of \<open>BacktestConfig\<close>, and the inputs of the examples below: candles
  whose four prices agree, with volume \<open>1\<close>; the closes \<open>100, 101, 102, 101, 100\<close>
  of the specification's scenario; three candles that lose seven basis points once and
  then stay; three candles that lose \<open>1 / 1024\<close> once and then stay, with a cost rate
  of \<open>1 / 1024\<close> as well (numbers that binary floats hold exactly); a classifier
  that always predicts a rise, and one that follows the last return.
\<close>

definition default_cfg :: BacktestConfig where
  "default_cfg = \<lparr>inst = ''BTC-USDT'', bar = ''1m'', horizon = 5, limit = 2000,
                   thr_long = 55 / 100, thr_short = 45 / 100, initial = 10000,
                   fee_bps = 5, slip_bps = 2\<rparr>"

definition flat_candle :: "int \<Rightarrow> real \<Rightarrow> candle" where
  "flat_candle t c =
     \<lparr>ts = t, open_px = Fin c, high = Fin c, low = Fin c, close = Fin c, vol = Fin 1\<rparr>"

definition scenario_candles :: "candle list" where
  "scenario_candles = [flat_candle 0 100, flat_candle 1 101, flat_candle 2 102,
                       flat_candle 3 101, flat_candle 4 100]"

definition drift_candles :: "candle list" where
  "drift_candles = [flat_candle 0 10000, flat_candle 1 9993, flat_candle 2 9993]"

definition dyadic_candles :: "candle list" where
  "dyadic_candles = [flat_candle 0 1024, flat_candle 1 1023, flat_candle 2 1023]"

definition dyadic_cfg :: BacktestConfig where
  "dyadic_cfg = default_cfg\<lparr>horizon := 1, fee_bps := 625 / 64, slip_bps := 0\<rparr>"

definition always_long :: "feat_row \<Rightarrow> fl" where
  "always_long r = Fin (3 / 5)"

definition momentum :: "feat_row \<Rightarrow> fl" where
  "momentum r = (if fl_le (Fin 0) (ret_1 r) then Fin (3 / 5) else Fin (2 / 5))"

section \<open>Properties\<close>

subsection \<open>Horizon to steps\<close>

lemma bar_to_steps_minutes:
  assumes "b \<noteq> []" "bar_unit b = CHR ''m''" "bar_val b \<noteq> 0"
  shows "bar_to_steps b h = Inr (max 1 (h div bar_val b))"
  using assms by (simp add: bar_to_steps_def Let_def)

lemma bar_to_steps_hours:
  assumes "b \<noteq> []" "bar_unit b = CHR ''h''" "1 \<le> bar_val b"
  shows "bar_to_steps b h = Inr (max 1 (h div (60 * bar_val b)))"
proof -
  have "(h div 60) div bar_val b = h div (60 * bar_val b)"
    using assms(3) by (simp add: zdiv_zmult2_eq)
  with assms show ?thesis
    by (simp add: bar_to_steps_def Let_def max_absorb2)
qed

lemma bar_to_steps_other:
  assumes "b \<noteq> []" "bar_unit b \<noteq> CHR ''m''" "bar_unit b \<noteq> CHR ''h''"
  shows "bar_to_steps b h = Inr (max 1 h)"
  using assms by (simp add: bar_to_steps_def Let_def)

lemmas bar_eval = bar_unit_def bar_val_def py_lower_def py_int_def py_strip_def
  py_isspace_def is_digit_def digit_val_def

text \<open>
  C6, as the code has it. On a non-empty bar string whose number is positive,
  \<open>_bar_to_steps\<close> returns the horizon divided by the bar's minutes, rounded down, and
  at least \<open>1\<close>, for the units \<open>m\<close> and \<open>h\<close>. On a string whose unit is none of
  \<open>m\<close>, \<open>h\<close>, \<open>d\<close> it does not fail and returns the horizon itself, at least
  \<open>1\<close>: the bar is taken for one minute.
\<close>

theorem bar_to_steps_units:
  assumes "b \<noteq> []"
  shows "(bar_unit b = CHR ''m'' \<and> 1 \<le> bar_val b \<longrightarrow>
            bar_to_steps b h = Inr (max 1 \<lfloor>real_of_int h / real_of_int (bar_val b)\<rfloor>))
       \<and> (bar_unit b = CHR ''h'' \<and> 1 \<le> bar_val b \<longrightarrow>
            bar_to_steps b h = Inr (max 1 \<lfloor>real_of_int h / real_of_int (60 * bar_val b)\<rfloor>))
       \<and> (bar_unit b \<noteq> CHR ''m'' \<and> bar_unit b \<noteq> CHR ''h'' \<and> bar_unit b \<noteq> CHR ''d'' \<longrightarrow>
            bar_to_steps b h = Inr (max 1 h))"
proof (intro conjI impI)
  assume "bar_unit b = CHR ''m'' \<and> 1 \<le> bar_val b"
  then have "bar_to_steps b h = Inr (max 1 (h div bar_val b))"
    using assms by (intro bar_to_steps_minutes) auto
  then show "bar_to_steps b h = Inr (max 1 \<lfloor>real_of_int h / real_of_int (bar_val b)\<rfloor>)"
    by (simp add: floor_divide_of_int_eq)
next
  assume "bar_unit b = CHR ''h'' \<and> 1 \<le> bar_val b"
  then have "bar_to_steps b h = Inr (max 1 (h div (60 * bar_val b)))"
    using assms by (intro bar_to_steps_hours) auto
  then show "bar_to_steps b h = Inr (max 1 \<lfloor>real_of_int h / real_of_int (60 * bar_val b)\<rfloor>)"
    by (simp only: floor_divide_of_int_eq)
next
  assume "bar_unit b \<noteq> CHR ''m'' \<and> bar_unit b \<noteq> CHR ''h'' \<and> bar_unit b \<noteq> CHR ''d''"
  then show "bar_to_steps b h = Inr (max 1 h)"
    using assms by (intro bar_to_steps_other) auto
qed

theorem bar_to_steps_units_witness:
  "bar_to_steps ''15m'' 47 = Inr 3 \<and> bar_to_steps ''2H'' 250 = Inr 2
   \<and> bar_to_steps ''1x'' 7 = Inr 7"
proof -
  have m: "bar_unit ''15m'' = CHR ''m'' \<and> 1 \<le> bar_val ''15m''" and mv: "bar_val ''15m'' = 15"
    by (simp_all add: bar_eval)
  have h: "bar_unit ''2H'' = CHR ''h'' \<and> 1 \<le> bar_val ''2H''" and hv: "bar_val ''2H'' = 2"
    by (simp_all add: bar_eval)
  have x: "bar_unit ''1x'' \<noteq> CHR ''m'' \<and> bar_unit ''1x'' \<noteq> CHR ''h''
           \<and> bar_unit ''1x'' \<noteq> CHR ''d''"
    by (simp add: bar_eval)
  have "bar_to_steps ''15m'' 47 = Inr 3"
    using bar_to_steps_units [of "''15m''" 47] m mv by simp
  moreover have "bar_to_steps ''2H'' 250 = Inr 2"
    using bar_to_steps_units [of "''2H''" 250] h hv by simp
  moreover have "bar_to_steps ''1x'' 7 = Inr 7"
    using bar_to_steps_units [of "''1x''" 7] x by simp
  ultimately show ?thesis by simp
qed

text \<open>
  C6 as the specification states it fails: with the unit \<open>x\<close> and a horizon of \<open>7\<close>
  minutes the result is \<open>7\<close> steps, not the minimum of \<open>1\<close>; a bar of one day and a
  horizon of \<open>5\<close> minutes give \<open>5\<close> steps, not \<open>max 1 \<lfloor>5 / 1440\<rfloor> = 1\<close>; and a bar
  of zero minutes raises.
\<close>

theorem bar_to_steps_counterexample:
  "bar_to_steps ''1x'' 7 = Inr 7 \<and> bar_to_steps ''1D'' 5 = Inr 5
   \<and> bar_to_steps ''0m'' 5 = Inl ZeroDivisionError"
  by (simp add: bar_to_steps_def bar_eval)

subsection \<open>Signals\<close>

lemma signals_nth:
  assumes "i < length probs"
  shows "signals_from_probs probs a c ! i =
     (if fl_less (probs ! i) c then Fin (- 1)
      else if fl_less a (probs ! i) then Fin 1 else Fin 0)"
  using assms by (simp add: signals_from_probs_def masked_assign_def)

lemma length_signals: "length (signals_from_probs probs a c) = length probs"
  by (simp add: signals_from_probs_def masked_assign_def)

text \<open>
  C9. Whatever the probabilities (NaN and the infinities included) and whatever the two
  thresholds, in either order, every signal is \<open>-1\<close>, \<open>0\<close> or \<open>1\<close>.
\<close>

theorem signals_in_range:
  "set (signals_from_probs probs a c) \<subseteq> {Fin (- 1), Fin 0, Fin 1}"
proof
  fix s assume "s \<in> set (signals_from_probs probs a c)"
  then obtain i where "i < length probs" "s = signals_from_probs probs a c ! i"
    by (auto simp: in_set_conv_nth length_signals)
  then show "s \<in> {Fin (- 1), Fin 0, Fin 1}"
    by (simp add: signals_nth)
qed

theorem signals_in_range_witness:
  "set (signals_from_probs [Fin (3/5), NaN, Fin (1/2), PInf] (Fin (9/20)) (Fin (11/20)))
     \<subseteq> {Fin (- 1), Fin 0, Fin 1}"
  using signals_in_range [of "[Fin (3/5), NaN, Fin (1/2), PInf]" "Fin (9/20)" "Fin (11/20)"]
  by simp

lemmas series_eval = shift_def shift_opt_def fillna_def ffill_def bfill_def pct_change_def
  window_mean_def rolling_mean_def boolean_mask_def isna_def fl_sub_def inf_of_sign_def
  reindex_def

lemmas run_eval = backtest_returns_def build_from_candles_def valid_idx_def
  y_cls_def future_close_def features_def series_eval flat_candle_def Let_def eps9_def
  signals_from_probs_def masked_assign_def np_roll_def default_cfg_def

subsection \<open>Features and labels\<close>

lemma length_shift_opt: "length (shift_opt k xs) = length xs"
  by (simp add: shift_opt_def)

lemma length_shift: "length (shift k xs) = length xs"
  by (simp add: shift_def length_shift_opt)

lemma length_fillna: "length (fillna v xs) = length xs"
  by (simp add: fillna_def)

lemma shift_back_nth:
  assumes "0 \<le> h" "i < length xs"
  shows "shift (- h) xs ! i = (if i + nat h < length xs then xs ! (i + nat h) else NaN)"
proof -
  have "int i - - h = int (i + nat h)" using assms by simp
  then show ?thesis
    using assms by (simp add: shift_def shift_opt_def Let_def nat_add_distrib del: of_nat_add)
qed

lemma length_future_close: "length (future_close df h) = length df"
  by (simp add: future_close_def length_shift)

lemma future_close_nth:
  assumes "0 \<le> h" "i < length df"
  shows "future_close df h ! i =
     (if i + nat h < length df then close (df ! (i + nat h)) else NaN)"
  using assms by (simp add: future_close_def shift_back_nth)

lemma length_features: "length (features df) = length df"
  by (simp add: features_def Let_def)

lemma length_y_cls: "length (y_cls df h) = length df"
  by (simp add: y_cls_def Let_def length_fillna length_future_close)

lemma length_valid_idx: "length (valid_idx df h) = length df"
  by (simp add: valid_idx_def length_future_close)

lemma valid_idx_nth:
  assumes "0 \<le> h" "i < length df"
  shows "valid_idx df h ! i = (i + nat h < length df \<and> \<not> isna (close (df ! (i + nat h))))"
  using assms by (simp add: valid_idx_def length_future_close future_close_nth isna_def)

text \<open>The label of a row, from its close and its forward close.\<close>

lemma y_cls_nth:
  assumes "0 \<le> h" "i < length df"
  shows "y_cls df h ! i =
     (let y = fl_sub (fl_div (future_close df h ! i) (close (df ! i))) (Fin 1)
      in if fl_le (Fin 0) (if isna y then Fin 0 else y) then 1 else 0)"
  using assms by (simp add: y_cls_def Let_def fillna_def length_future_close)

lemma map_fst_boolean_mask:
  "map fst (boolean_mask flags rows) = filter (\<lambda>i. flags ! i) [0..<length rows]"
  by (simp add: boolean_mask_def comp_def)

lemma map_of_boolean_mask:
  "map_of (boolean_mask flags rows) t =
     (if t < length rows \<and> flags ! t then Some (rows ! t) else None)"
proof -
  have "map_of (map (\<lambda>i. (i, rows ! i)) (filter (\<lambda>i. flags ! i) [0..<length rows])) t
        = ((Some \<circ> (\<lambda>i. rows ! i)) |` set (filter (\<lambda>i. flags ! i) [0..<length rows])) t"
    by (simp only: map_of_map_restrict)
  then show ?thesis
    by (auto simp: boolean_mask_def restrict_map_def)
qed

lemma filter_less_upt: "filter (\<lambda>t. t < m) [0..<n] = [0..<min m n]"
proof (induction n)
  case 0
  show ?case by simp
next
  case (Suc n)
  show ?case
  proof (cases "n < m")
    case True
    then have "min m (Suc n) = Suc n" "min m n = n" by simp_all
    with Suc True show ?thesis by simp
  next
    case False
    then have "min m (Suc n) = m" "min m n = m" by simp_all
    with Suc False show ?thesis by simp
  qed
qed

lemma kept_index:
  assumes "0 \<le> h"
  shows "filter (\<lambda>i. valid_idx df h ! i) [0..<length df] =
         filter (\<lambda>t. t + nat h < length df \<and> \<not> isna (close (df ! (t + nat h)))) [0..<length df]"
  by (rule filter_cong) (auto simp: valid_idx_nth assms)

lemma build_index:
  assumes "0 \<le> h"
  shows "map fst (fst (build_from_candles df h)) =
           filter (\<lambda>t. t + nat h < length df \<and> \<not> isna (close (df ! (t + nat h))))
             [0..<length df]"
  using kept_index [OF assms]
  by (simp add: build_from_candles_def map_fst_boolean_mask length_features)

lemma build_empty:
  assumes "0 \<le> h" "length df \<le> nat h"
  shows "fst (build_from_candles df h) = []"
proof -
  have "map fst (fst (build_from_candles df h)) = []"
    using assms by (simp add: build_index [OF assms(1)] filter_empty_conv)
  then show ?thesis by simp
qed

lemma label_at:
  assumes "0 \<le> h"
  shows "map_of (snd (build_from_candles df h)) t =
        (if t + nat h < length df \<and> \<not> isna (close (df ! (t + nat h)))
         then Some (let y = fl_sub (fl_div (close (df ! (t + nat h))) (close (df ! t))) (Fin 1)
                    in if fl_le (Fin 0) (if isna y then Fin 0 else y) then 1 else 0)
         else None)"
  using assms by (auto simp: build_from_candles_def map_of_boolean_mask length_y_cls
        valid_idx_nth y_cls_nth future_close_nth Let_def)

text \<open>
  C3. For a horizon of at least one step, the feature frame and the label series of
  \<open>build_from_candles\<close> have the same index and the same length. The index holds
  exactly the rows \<open>t\<close> whose forward close, the close of row \<open>t + h\<close>, is there and
  is not missing, so none of the last \<open>h\<close> rows; when no close is missing, it is
  \<open>0, ..., n - h - 1\<close>. Each kept row carries its own features and its own label.
\<close>

theorem index_alignment:
  assumes "1 \<le> h"
  shows "map fst (fst (build_from_candles df h)) = map fst (snd (build_from_candles df h))
       \<and> length (fst (build_from_candles df h)) = length (snd (build_from_candles df h))
       \<and> map fst (fst (build_from_candles df h)) =
           filter (\<lambda>t. t + nat h < length df \<and> \<not> isna (close (df ! (t + nat h))))
             [0..<length df]
       \<and> (list_all (\<lambda>c. \<not> isna (close c)) df \<longrightarrow>
            map fst (fst (build_from_candles df h)) = [0..<length df - nat h])
       \<and> fst (build_from_candles df h) =
           map (\<lambda>t. (t, features df ! t))
             (filter (\<lambda>t. t + nat h < length df \<and> \<not> isna (close (df ! (t + nat h))))
                [0..<length df])
       \<and> snd (build_from_candles df h) =
           map (\<lambda>t. (t, y_cls df h ! t))
             (filter (\<lambda>t. t + nat h < length df \<and> \<not> isna (close (df ! (t + nat h))))
                [0..<length df])"
proof -
  have h0: "0 \<le> h" using assms by simp
  have ix: "map fst (fst (build_from_candles df h)) = filter (\<lambda>i. valid_idx df h ! i) [0..<length df]"
    by (simp add: build_from_candles_def map_fst_boolean_mask length_features)
  have iy: "map fst (snd (build_from_candles df h)) = filter (\<lambda>i. valid_idx df h ! i) [0..<length df]"
    by (simp add: build_from_candles_def map_fst_boolean_mask length_y_cls)
  have a: "map fst (fst (build_from_candles df h)) = map fst (snd (build_from_candles df h))"
    using ix iy by simp
  have b: "length (fst (build_from_candles df h)) = length (snd (build_from_candles df h))"
    using arg_cong [OF a, of length] by simp
  have c: "map fst (fst (build_from_candles df h)) =
           filter (\<lambda>t. t + nat h < length df \<and> \<not> isna (close (df ! (t + nat h)))) [0..<length df]"
    using ix kept_index [OF h0] by simp
  have d: "map fst (fst (build_from_candles df h)) = [0..<length df - nat h]"
    if nn: "list_all (\<lambda>c. \<not> isna (close c)) df"
  proof -
    have "filter (\<lambda>t. t + nat h < length df \<and> \<not> isna (close (df ! (t + nat h)))) [0..<length df]
          = filter (\<lambda>t. t < length df - nat h) [0..<length df]"
      using nn by (intro filter_cong) (auto simp: list_all_length)
    then show ?thesis using c by (simp add: filter_less_upt)
  qed
  have e: "fst (build_from_candles df h) =
           map (\<lambda>t. (t, features df ! t))
             (filter (\<lambda>t. t + nat h < length df \<and> \<not> isna (close (df ! (t + nat h))))
                [0..<length df])"
    using kept_index [OF h0]
    by (simp add: build_from_candles_def boolean_mask_def length_features)
  have f: "snd (build_from_candles df h) =
           map (\<lambda>t. (t, y_cls df h ! t))
             (filter (\<lambda>t. t + nat h < length df \<and> \<not> isna (close (df ! (t + nat h))))
                [0..<length df])"
    using kept_index [OF h0]
    by (simp add: build_from_candles_def boolean_mask_def length_y_cls)
  show ?thesis using a b c d e f by blast
qed

text \<open>
  On the five candles of the scenario and a horizon of one step, both outputs have the
  index \<open>0, 1, 2, 3\<close>.
\<close>

theorem index_alignment_witness:
  "(1::int) \<le> 1 \<and> list_all (\<lambda>c. \<not> isna (close c)) scenario_candles
   \<and> map fst (fst (build_from_candles scenario_candles 1)) = [0, 1, 2, 3]
   \<and> map fst (snd (build_from_candles scenario_candles 1)) = [0, 1, 2, 3]
   \<and> snd (build_from_candles scenario_candles 1) = [(0, 1), (1, 1), (2, 0), (3, 0)]"
proof -
  have h: "(1::int) \<le> 1" by simp
  have n: "list_all (\<lambda>c. \<not> isna (close c)) scenario_candles"
    by (simp add: scenario_candles_def flat_candle_def isna_def)
  have l: "[0..<length scenario_candles - nat 1] = [0, 1, 2, 3]"
    by (simp add: scenario_candles_def upt_rec)
  have y: "snd (build_from_candles scenario_candles 1) = [(0, 1), (1, 1), (2, 0), (3, 0)]"
    by (simp add: run_eval scenario_candles_def)
  note ia = index_alignment [OF h, of scenario_candles]
  have e: "map fst (fst (build_from_candles scenario_candles 1))
           = map fst (snd (build_from_candles scenario_candles 1))"
    using ia by (rule conjunct1)
  have "list_all (\<lambda>c. \<not> isna (close c)) scenario_candles \<longrightarrow>
        map fst (fst (build_from_candles scenario_candles 1))
          = [0..<length scenario_candles - nat 1]"
    using ia by blast
  then have x: "map fst (fst (build_from_candles scenario_candles 1)) = [0, 1, 2, 3]"
    using n l by simp
  show ?thesis
    using h n x e y by simp
qed

text \<open>
  C1. For a horizon \<open>h\<close> of at least one step, two candle series that agree on the rows
  \<open>0, ..., t + h\<close> give row \<open>t\<close> the same label, or both give it none.
\<close>

theorem no_look_ahead:
  assumes "1 \<le> h" and "take (t + nat h + 1) df1 = take (t + nat h + 1) df2"
  shows "map_of (snd (build_from_candles df1 h)) t = map_of (snd (build_from_candles df2 h)) t"
proof -
  have h0: "0 \<le> h" using assms by simp
  let ?k = "t + nat h"
  have len: "min (length df1) (?k + 1) = min (length df2) (?k + 1)"
    using arg_cong [OF assms(2), of length] by simp
  have nth: "df1 ! i = df2 ! i" if "i \<le> ?k" for i
  proof -
    have "take (?k + 1) df1 ! i = take (?k + 1) df2 ! i" using assms(2) by simp
    then show ?thesis using that by simp
  qed
  show ?thesis
  proof (cases "?k < length df1")
    case True
    then have "?k < length df2" using len by (simp add: min_def split: if_splits)
    then show ?thesis using True nth [of ?k] nth [of t] by (simp add: label_at [OF h0])
  next
    case False
    then have "\<not> ?k < length df2" using len by (simp add: min_def split: if_splits)
    then show ?thesis using False by (simp add: label_at [OF h0])
  qed
qed

text \<open>
  The scenario and a copy whose last candle closes at \<open>200\<close> agree on the rows
  \<open>0, ..., 3\<close>: row \<open>2\<close> keeps its label under a horizon of one step, while row \<open>3\<close>,
  whose forward close is the changed one, does not.
\<close>

theorem no_look_ahead_witness:
  "(1::int) \<le> 1
   \<and> take (2 + nat 1 + 1) scenario_candles
       = take (2 + nat 1 + 1) (scenario_candles[4 := flat_candle 4 200])
   \<and> map_of (snd (build_from_candles scenario_candles 1)) 2 = Some 0
   \<and> map_of (snd (build_from_candles (scenario_candles[4 := flat_candle 4 200]) 1)) 2 = Some 0
   \<and> map_of (snd (build_from_candles scenario_candles 1)) 3 = Some 0
   \<and> map_of (snd (build_from_candles (scenario_candles[4 := flat_candle 4 200]) 1)) 3 = Some 1"
proof -
  have h: "(1::int) \<le> 1" by simp
  have t: "take (2 + nat 1 + 1) scenario_candles
       = take (2 + nat 1 + 1) (scenario_candles[4 := flat_candle 4 200])"
    by (simp add: scenario_candles_def)
  have a: "map_of (snd (build_from_candles scenario_candles 1)) 2 = Some 0"
    by (simp add: label_at scenario_candles_def flat_candle_def isna_def fl_sub_def)
  have b: "map_of (snd (build_from_candles scenario_candles 1)) 3 = Some 0"
    by (simp add: label_at scenario_candles_def flat_candle_def isna_def fl_sub_def)
  have c: "map_of (snd (build_from_candles (scenario_candles[4 := flat_candle 4 200]) 1)) 3 = Some 1"
    by (simp add: label_at scenario_candles_def flat_candle_def isna_def fl_sub_def)
  show ?thesis
    using h t a b c no_look_ahead [OF h t] by simp
qed

subsection \<open>Returns of each period\<close>

lemma length_np_roll: "length (np_roll xs k) = length xs"
  by (auto simp: np_roll_def Let_def)

lemma np_roll_one_nth:
  assumes "0 < t" "t < length xs"
  shows "np_roll xs 1 ! t = xs ! (t - 1)"
proof -
  have n: "2 \<le> length xs" using assms by simp
  then have r: "1 mod length xs = 1" by simp
  have ne: "xs \<noteq> []" using assms by auto
  have "np_roll xs 1 = drop (length xs - 1) xs @ take (length xs - 1) xs"
    using ne r by (simp add: np_roll_def Let_def)
  moreover have "length (drop (length xs - 1) xs) = 1" using n by simp
  ultimately have "np_roll xs 1 ! t = take (length xs - 1) xs ! (t - 1)"
    using assms by (simp add: nth_append)
  then show ?thesis using assms by simp
qed

lemma np_roll_Nil: "np_roll xs k = [] \<longleftrightarrow> xs = []"
  using length_np_roll [of xs k] by (metis length_0_conv)

lemma signals_Nil: "signals_from_probs probs a c = [] \<longleftrightarrow> probs = []"
  using length_signals [of probs a c] by (metis length_0_conv)

text \<open>What \<open>backtest_returns\<close> returns, when it returns.\<close>

lemma backtest_returns_record:
  assumes "backtest_returns df clf cfg = Inr L"
  obtains steps where "bar_to_steps (bar cfg) (horizon cfg) = Inr steps"
    and "fst (build_from_candles df steps) \<noteq> []"
    and "L = (let rows = fst (build_from_candles df steps);
                 r = fillna (Fin 0) (reindex (pct_change 1 (map close df)) (map fst rows));
                 sg = signals_from_probs (map (\<lambda>row. clf (snd row)) rows)
                        (Fin (thr_long cfg)) (Fin (thr_short cfg));
                 shifted = (np_roll sg 1)[0 := Fin 0];
                 gross = map2 fl_mul shifted r;
                 turn = map fl_abs (map2 fl_sub sg shifted);
                 cost = (fee_bps cfg + slip_bps cfg) / 10000
             in \<lparr>X = rows, ret = r, sig = sg, sig_shift = shifted, gross_ret = gross,
                  turnover = turn, cost_bps = cost,
                  strat_ret = map2 fl_sub gross (map (\<lambda>t. fl_mul t (Fin cost)) turn)\<rparr>)"
proof -
  obtain steps where st: "bar_to_steps (bar cfg) (horizon cfg) = Inr steps"
    using assms by (cases "bar_to_steps (bar cfg) (horizon cfg)") (simp_all add: backtest_returns_def)
  have ne: "fst (build_from_candles df steps) \<noteq> []"
    using assms st by (auto simp: backtest_returns_def Let_def np_roll_Nil signals_Nil split: if_splits)
  show ?thesis
    using assms st ne
    by (intro that [of steps]) (simp_all add: backtest_returns_def Let_def np_roll_Nil signals_Nil)
qed

lemma backtest_returns_fields:
  assumes "backtest_returns df clf cfg = Inr L"
  shows "\<exists>steps. bar_to_steps (bar cfg) (horizon cfg) = Inr steps
           \<and> X L = fst (build_from_candles df steps)"
    and "X L \<noteq> []"
    and "ret L = fillna (Fin 0) (reindex (pct_change 1 (map close df)) (map fst (X L)))"
    and "sig L = signals_from_probs (map (\<lambda>row. clf (snd row)) (X L))
                   (Fin (thr_long cfg)) (Fin (thr_short cfg))"
    and "sig_shift L = (np_roll (sig L) 1)[0 := Fin 0]"
    and "gross_ret L = map2 fl_mul (sig_shift L) (ret L)"
    and "turnover L = map fl_abs (map2 fl_sub (sig L) (sig_shift L))"
    and "cost_bps L = (fee_bps cfg + slip_bps cfg) / 10000"
    and "strat_ret L = map2 fl_sub (gross_ret L)
                         (map (\<lambda>t. fl_mul t (Fin (cost_bps L))) (turnover L))"
proof -
  from backtest_returns_record [OF assms] obtain steps where
    st: "bar_to_steps (bar cfg) (horizon cfg) = Inr steps"
    and ne: "fst (build_from_candles df steps) \<noteq> []"
    and L: "L = (let rows = fst (build_from_candles df steps);
                 r = fillna (Fin 0) (reindex (pct_change 1 (map close df)) (map fst rows));
                 sg = signals_from_probs (map (\<lambda>row. clf (snd row)) rows)
                        (Fin (thr_long cfg)) (Fin (thr_short cfg));
                 shifted = (np_roll sg 1)[0 := Fin 0];
                 gross = map2 fl_mul shifted r;
                 turn = map fl_abs (map2 fl_sub sg shifted);
                 cost = (fee_bps cfg + slip_bps cfg) / 10000
             in \<lparr>X = rows, ret = r, sig = sg, sig_shift = shifted, gross_ret = gross,
                  turnover = turn, cost_bps = cost,
                  strat_ret = map2 fl_sub gross (map (\<lambda>t. fl_mul t (Fin cost)) turn)\<rparr>)"
    by blast
  show "\<exists>steps. bar_to_steps (bar cfg) (horizon cfg) = Inr steps
           \<and> X L = fst (build_from_candles df steps)"
    using st L by (simp add: Let_def)
  show "X L \<noteq> []" using ne L by (simp add: Let_def)
  show "ret L = fillna (Fin 0) (reindex (pct_change 1 (map close df)) (map fst (X L)))"
    using L by (simp add: Let_def)
  show "sig L = signals_from_probs (map (\<lambda>row. clf (snd row)) (X L))
                   (Fin (thr_long cfg)) (Fin (thr_short cfg))"
    using L by (simp add: Let_def)
  show "sig_shift L = (np_roll (sig L) 1)[0 := Fin 0]" using L by (simp add: Let_def)
  show "gross_ret L = map2 fl_mul (sig_shift L) (ret L)" using L by (simp add: Let_def)
  show "turnover L = map fl_abs (map2 fl_sub (sig L) (sig_shift L))"
    using L by (simp add: Let_def)
  show "cost_bps L = (fee_bps cfg + slip_bps cfg) / 10000" using L by (simp add: Let_def)
  show "strat_ret L = map2 fl_sub (gross_ret L)
                         (map (\<lambda>t. fl_mul t (Fin (cost_bps L))) (turnover L))"
    using L by (simp add: Let_def)
qed

lemma backtest_returns_lengths:
  assumes "backtest_returns df clf cfg = Inr L"
  shows "length (sig L) = length (X L)" "length (ret L) = length (X L)"
    "length (sig_shift L) = length (X L)" "length (gross_ret L) = length (X L)"
    "length (turnover L) = length (X L)" "length (strat_ret L) = length (X L)"
    "0 < length (X L)"
proof -
  note f = backtest_returns_fields [OF assms]
  show a: "length (sig L) = length (X L)" by (simp add: f(4) length_signals)
  show b: "length (ret L) = length (X L)" by (simp add: f(3) length_fillna reindex_def)
  show c: "length (sig_shift L) = length (X L)" by (simp add: f(5) length_np_roll a)
  show d: "length (gross_ret L) = length (X L)" by (simp add: f(6) b c)
  show e: "length (turnover L) = length (X L)" by (simp add: f(7) a c)
  show "length (strat_ret L) = length (X L)" by (simp add: f(9) d e)
  show "0 < length (X L)" using f(2) by simp
qed

lemma backtest_returns_exists:
  assumes "bar_to_steps (bar cfg) (horizon cfg) = Inr steps"
      and "fst (build_from_candles df steps) \<noteq> []"
  shows "\<exists>L. backtest_returns df clf cfg = Inr L"
  using assms by (simp add: backtest_returns_def Let_def np_roll_Nil signals_Nil)

lemma backtest_returns_empty:
  assumes "bar_to_steps (bar cfg) (horizon cfg) = Inr steps"
      and "fst (build_from_candles df steps) = []"
  shows "backtest_returns df clf cfg = Inl IndexError"
  using assms by (simp add: backtest_returns_def Let_def np_roll_Nil signals_Nil)

text \<open>Each period, element by element.\<close>

lemma sig_shift_nth:
  assumes "backtest_returns df clf cfg = Inr L" "t < length (sig L)"
  shows "sig_shift L ! t = (if t = 0 then Fin 0 else sig L ! (t - 1))"
proof -
  note f = backtest_returns_fields [OF assms(1)]
  show ?thesis
  proof (cases "t = 0")
    case True
    then show ?thesis using assms(2) by (simp add: f(5) length_np_roll)
  next
    case False
    then have "np_roll (sig L) 1 ! t = sig L ! (t - 1)"
      using assms(2) by (intro np_roll_one_nth) auto
    then show ?thesis using False by (simp add: f(5))
  qed
qed

lemma gross_ret_nth:
  assumes "backtest_returns df clf cfg = Inr L" "t < length (sig L)"
  shows "gross_ret L ! t = fl_mul (sig_shift L ! t) (ret L ! t)"
  using assms backtest_returns_lengths [OF assms(1)]
  by (simp add: backtest_returns_fields(6) [OF assms(1)])

lemma turnover_nth:
  assumes "backtest_returns df clf cfg = Inr L" "t < length (sig L)"
  shows "turnover L ! t = fl_abs (fl_sub (sig L ! t) (sig_shift L ! t))"
  using assms backtest_returns_lengths [OF assms(1)]
  by (simp add: backtest_returns_fields(7) [OF assms(1)])

lemma strat_ret_nth:
  assumes "backtest_returns df clf cfg = Inr L" "t < length (sig L)"
  shows "strat_ret L ! t =
     fl_sub (gross_ret L ! t) (fl_mul (turnover L ! t) (Fin (cost_bps L)))"
  using assms backtest_returns_lengths [OF assms(1)]
  by (simp add: backtest_returns_fields(9) [OF assms(1)])

lemma sig_values:
  assumes "backtest_returns df clf cfg = Inr L" "t < length (sig L)"
  shows "sig L ! t \<in> {Fin (- 1), Fin 0, Fin 1}"
  using signals_nth [of t "map (\<lambda>row. clf (snd row)) (X L)"
      "Fin (thr_long cfg)" "Fin (thr_short cfg)"]
    assms(2) backtest_returns_lengths(1) [OF assms(1)]
  by (simp add: backtest_returns_fields(4) [OF assms(1)] length_signals)

lemma sig_shift_values:
  assumes "backtest_returns df clf cfg = Inr L" "t < length (sig L)"
  shows "sig_shift L ! t \<in> {Fin (- 1), Fin 0, Fin 1}"
proof (cases "t = 0")
  case True
  then show ?thesis using sig_shift_nth [OF assms] by simp
next
  case False
  then have "t - 1 < length (sig L)" using assms(2) by simp
  from sig_values [OF assms(1) this] show ?thesis
    using sig_shift_nth [OF assms] False by simp
qed

lemma turnover_fin:
  assumes "backtest_returns df clf cfg = Inr L" "t < length (sig L)"
  shows "\<exists>k. 0 \<le> k \<and> turnover L ! t = Fin k"
  using sig_values [OF assms] sig_shift_values [OF assms] turnover_nth [OF assms]
  by (auto simp: fl_sub_def)

lemma fl_sub_cost_mono:
  assumes "c \<le> c'"
  shows "fl_sub g (Fin c') = fl_sub g (Fin c) \<or> fl_less (fl_sub g (Fin c')) (fl_sub g (Fin c))"
  using assms by (cases g) (auto simp: fl_sub_def)

lemma fl_sub_zero: "fl_sub g (Fin 0) = g"
  by (cases g) (simp_all add: fl_sub_def)

text \<open>The fee and the slippage reach the locals through the cost rate only.\<close>

lemma backtest_returns_costs:
  assumes "backtest_returns df clf cfg = Inr L"
  shows "backtest_returns df clf (cfg\<lparr>fee_bps := f', slip_bps := s'\<rparr>)
         = Inr (L\<lparr>cost_bps := (f' + s') / 10000,
                  strat_ret := map2 fl_sub (gross_ret L)
                     (map (\<lambda>t. fl_mul t (Fin ((f' + s') / 10000))) (turnover L))\<rparr>)"
proof -
  from backtest_returns_record [OF assms] obtain steps where
    st: "bar_to_steps (bar cfg) (horizon cfg) = Inr steps"
    and ne: "fst (build_from_candles df steps) \<noteq> []"
    and L: "L = (let rows = fst (build_from_candles df steps);
                 r = fillna (Fin 0) (reindex (pct_change 1 (map close df)) (map fst rows));
                 sg = signals_from_probs (map (\<lambda>row. clf (snd row)) rows)
                        (Fin (thr_long cfg)) (Fin (thr_short cfg));
                 shifted = (np_roll sg 1)[0 := Fin 0];
                 gross = map2 fl_mul shifted r;
                 turn = map fl_abs (map2 fl_sub sg shifted);
                 cost = (fee_bps cfg + slip_bps cfg) / 10000
             in \<lparr>X = rows, ret = r, sig = sg, sig_shift = shifted, gross_ret = gross,
                  turnover = turn, cost_bps = cost,
                  strat_ret = map2 fl_sub gross (map (\<lambda>t. fl_mul t (Fin cost)) turn)\<rparr>)"
    by blast
  show ?thesis
    using st ne
    by (simp add: backtest_returns_def Let_def np_roll_Nil signals_Nil L)
qed

text \<open>The two example runs, evaluated.\<close>

lemma steps1: "bar_to_steps ''1m'' 1 = Inr 1"
  by (simp add: bar_to_steps_def bar_eval)

lemma steps5: "bar_to_steps ''1m'' 5 = Inr 5"
  by (simp add: bar_to_steps_def bar_eval)

lemma scenario_signals:
  "map_sum id sig (backtest_returns scenario_candles momentum (default_cfg\<lparr>horizon := 1\<rparr>))
   = Inr [Fin 1, Fin 1, Fin 1, Fin (- 1)]"
  by (simp add: steps1 run_eval scenario_candles_def momentum_def)

lemma drift_locals:
  "map_sum id (\<lambda>L. (ret L, sig L, sig_shift L, gross_ret L, turnover L, strat_ret L))
     (backtest_returns drift_candles always_long (default_cfg\<lparr>horizon := 1\<rparr>))
   = Inr ([Fin 0, Fin (- (7 / 10000))], [Fin 1, Fin 1], [Fin 0, Fin 1],
          [Fin 0, Fin (- (7 / 10000))], [Fin 1, Fin 0],
          [Fin (- (7 / 10000)), Fin (- (7 / 10000))])"
  by (simp add: steps1 run_eval drift_candles_def always_long_def)

lemma drift_run:
  obtains L where
    "backtest_returns drift_candles always_long (default_cfg\<lparr>horizon := 1\<rparr>) = Inr L"
    "ret L = [Fin 0, Fin (- (7 / 10000))]" "sig L = [Fin 1, Fin 1]"
    "sig_shift L = [Fin 0, Fin 1]" "gross_ret L = [Fin 0, Fin (- (7 / 10000))]"
    "turnover L = [Fin 1, Fin 0]"
    "strat_ret L = [Fin (- (7 / 10000)), Fin (- (7 / 10000))]"
  using drift_locals
  by (cases "backtest_returns drift_candles always_long (default_cfg\<lparr>horizon := 1\<rparr>)") auto

text \<open>
  C2. Whenever the run gets as far as the returns, the position held in period \<open>t\<close>, by
  which the return of the period is multiplied to give the gross return, is the signal
  of period \<open>t - 1\<close> for \<open>t \<ge> 1\<close> and is \<open>0\<close> in period \<open>0\<close>, whatever the first
  signal is.
\<close>

theorem execution_lag:
  assumes "backtest_returns df clf cfg = Inr L" and "t < length (sig L)"
  shows "length (sig_shift L) = length (sig L)
       \<and> sig_shift L ! t = (if t = 0 then Fin 0 else sig L ! (t - 1))
       \<and> gross_ret L ! t = fl_mul (sig_shift L ! t) (ret L ! t)"
  using sig_shift_nth [OF assms] gross_ret_nth [OF assms]
    backtest_returns_lengths(1,3) [OF assms(1)] by simp

text \<open>
  On the scenario, with the classifier that follows the last return, the signals are
  \<open>1, 1, 1, -1\<close> and the positions start flat and lag by one period.
\<close>

theorem execution_lag_witness:
  "\<exists>L. backtest_returns scenario_candles momentum (default_cfg\<lparr>horizon := 1\<rparr>) = Inr L
       \<and> sig L = [Fin 1, Fin 1, Fin 1, Fin (- 1)]
       \<and> sig_shift L ! 0 = Fin 0 \<and> sig_shift L ! 1 = Fin 1 \<and> sig_shift L ! 3 = Fin 1
       \<and> gross_ret L ! 3 = fl_mul (Fin 1) (ret L ! 3)"
proof -
  obtain L where r: "backtest_returns scenario_candles momentum (default_cfg\<lparr>horizon := 1\<rparr>) = Inr L"
    using backtest_returns_exists [of "default_cfg\<lparr>horizon := 1\<rparr>" 1 scenario_candles momentum]
    by (auto simp: default_cfg_def steps1 run_eval scenario_candles_def)
  have s: "sig L = [Fin 1, Fin 1, Fin 1, Fin (- 1)]"
    using scenario_signals r by simp
  have "sig_shift L ! 0 = Fin 0" using execution_lag [OF r, of 0] s by simp
  moreover have "sig_shift L ! 1 = Fin 1" using execution_lag [OF r, of 1] s by simp
  moreover have "sig_shift L ! 3 = Fin 1 \<and> gross_ret L ! 3 = fl_mul (Fin 1) (ret L ! 3)"
    using execution_lag [OF r, of 3] s by simp
  ultimately show ?thesis using r s by blast
qed

text \<open>
  C5. With the candles, the classifier and the rest of the configuration fixed, a fee
  and a slippage that are not lower leave the signals, the turnover and the gross
  returns as they are; in a period with turnover the net return is the same or lower,
  and in a period without turnover it is the same.
\<close>

theorem cost_monotone:
  assumes "backtest_returns df clf cfg = Inr L"
      and "fee_bps cfg \<le> f'" and "slip_bps cfg \<le> s'"
      and "t < length (strat_ret L)"
  shows "\<exists>L'. backtest_returns df clf (cfg\<lparr>fee_bps := f', slip_bps := s'\<rparr>) = Inr L'
          \<and> sig L' = sig L \<and> turnover L' = turnover L \<and> gross_ret L' = gross_ret L
          \<and> (turnover L ! t \<noteq> Fin 0 \<longrightarrow>
               strat_ret L' ! t = strat_ret L ! t \<or> fl_less (strat_ret L' ! t) (strat_ret L ! t))
          \<and> (turnover L ! t = Fin 0 \<longrightarrow> strat_ret L' ! t = strat_ret L ! t)"
proof -
  let ?cfg' = "cfg\<lparr>fee_bps := f', slip_bps := s'\<rparr>"
  let ?L' = "L\<lparr>cost_bps := (f' + s') / 10000,
                  strat_ret := map2 fl_sub (gross_ret L)
                     (map (\<lambda>t. fl_mul t (Fin ((f' + s') / 10000))) (turnover L))\<rparr>"
  have r': "backtest_returns df clf ?cfg' = Inr ?L'"
    by (rule backtest_returns_costs [OF assms(1)])
  have t: "t < length (sig L)"
    using assms(4) backtest_returns_lengths [OF assms(1)] by simp
  have t': "t < length (sig ?L')" using t by simp
  obtain k where k: "0 \<le> k" "turnover L ! t = Fin k"
    using turnover_fin [OF assms(1) t] by blast
  have n: "strat_ret L ! t = fl_sub (gross_ret L ! t) (Fin (k * cost_bps L))"
    using strat_ret_nth [OF assms(1) t] k by simp
  have n': "strat_ret ?L' ! t = fl_sub (gross_ret L ! t) (Fin (k * ((f' + s') / 10000)))"
    using strat_ret_nth [OF r' t'] k by simp
  have c: "cost_bps L = (fee_bps cfg + slip_bps cfg) / 10000"
    by (rule backtest_returns_fields(8) [OF assms(1)])
  have le: "k * cost_bps L \<le> k * ((f' + s') / 10000)"
    using k(1) assms(2,3) c by (intro mult_left_mono) simp_all
  have m: "strat_ret ?L' ! t = strat_ret L ! t \<or> fl_less (strat_ret ?L' ! t) (strat_ret L ! t)"
    unfolding n n' by (rule fl_sub_cost_mono [OF le])
  have z: "strat_ret ?L' ! t = strat_ret L ! t" if "turnover L ! t = Fin 0"
    using that k n n' by simp
  show ?thesis
    using r' m z by (intro exI [of _ ?L']) simp
qed

text \<open>
  On the drifting candles under the classifier that is always long, doubling the fee
  and the slippage lowers the net return of period \<open>0\<close>, the entry, from \<open>-7\<close> to
  \<open>-14\<close> basis points and leaves period \<open>1\<close>, which has no turnover, as it is.
\<close>

theorem cost_monotone_witness:
  "\<exists>L L'. backtest_returns drift_candles always_long (default_cfg\<lparr>horizon := 1\<rparr>) = Inr L
      \<and> backtest_returns drift_candles always_long
           (default_cfg\<lparr>horizon := 1, fee_bps := 10, slip_bps := 4\<rparr>) = Inr L'
      \<and> fee_bps (default_cfg\<lparr>horizon := 1\<rparr>) \<le> 10
      \<and> slip_bps (default_cfg\<lparr>horizon := 1\<rparr>) \<le> 4
      \<and> turnover L = [Fin 1, Fin 0]
      \<and> strat_ret L ! 0 = Fin (- (7 / 10000)) \<and> strat_ret L' ! 0 = Fin (- (14 / 10000))
      \<and> fl_less (strat_ret L' ! 0) (strat_ret L ! 0)
      \<and> strat_ret L' ! 1 = strat_ret L ! 1"
proof -
  obtain L where r: "backtest_returns drift_candles always_long (default_cfg\<lparr>horizon := 1\<rparr>) = Inr L"
    and t: "turnover L = [Fin 1, Fin 0]"
    and n: "strat_ret L = [Fin (- (7 / 10000)), Fin (- (7 / 10000))]"
    and g: "gross_ret L = [Fin 0, Fin (- (7 / 10000))]"
    by (rule drift_run)
  have f: "fee_bps (default_cfg\<lparr>horizon := 1\<rparr>) \<le> 10"
    and s: "slip_bps (default_cfg\<lparr>horizon := 1\<rparr>) \<le> 4"
    by (simp_all add: default_cfg_def)
  have l0: "0 < length (strat_ret L)" and l1: "1 < length (strat_ret L)" using n by simp_all
  from cost_monotone [OF r f s l1] obtain L' where
    r': "backtest_returns drift_candles always_long
           (default_cfg\<lparr>horizon := 1, fee_bps := 10, slip_bps := 4\<rparr>) = Inr L'"
    and e1: "strat_ret L' ! 1 = strat_ret L ! 1"
    using t by auto
  have c': "cost_bps L' = 14 / 10000"
    using backtest_returns_fields(8) [OF r'] by (simp add: default_cfg_def)
  from cost_monotone [OF r f s l0] r' have
    tg: "turnover L' = turnover L" "gross_ret L' = gross_ret L" by auto
  have l0': "0 < length (sig L')" using backtest_returns_lengths [OF r'] by simp
  have n0': "strat_ret L' ! 0 = Fin (- (14 / 10000))"
    using strat_ret_nth [OF r' l0'] tg t g c' by (simp add: fl_sub_def)
  show ?thesis
    using r r' f s t n n0' e1 by (intro exI [of _ L] exI [of _ L']) simp
qed

text \<open>
  C7, as the code has it. A period whose turnover is zero is charged nothing: its net
  return is its gross return. Under a constant signal \<open>c\<close> every period after the
  first has zero turnover; the first period enters the position from flat, with the
  turnover \<open>|c|\<close>. So the whole run is free of cost when the constant signal is flat.
\<close>

theorem zero_turnover_no_cost:
  assumes "backtest_returns df clf cfg = Inr L" and "t < length (sig L)"
  shows "(turnover L ! t = Fin 0 \<longrightarrow> strat_ret L ! t = gross_ret L ! t)
       \<and> ((\<forall>i < length (sig L). sig L ! i = c) \<longrightarrow>
            turnover L ! 0 = fl_abs c
            \<and> (0 < t \<longrightarrow> turnover L ! t = Fin 0 \<and> strat_ret L ! t = gross_ret L ! t)
            \<and> (c = Fin 0 \<longrightarrow> strat_ret L ! t = gross_ret L ! t))"
proof -
  have z: "strat_ret L ! t = gross_ret L ! t" if "turnover L ! t = Fin 0"
    using strat_ret_nth [OF assms] that by (simp add: fl_sub_zero)
  have n0: "0 < length (sig L)" using assms(2) by linarith
  have cs: "turnover L ! 0 = fl_abs c
            \<and> (0 < t \<longrightarrow> turnover L ! t = Fin 0 \<and> strat_ret L ! t = gross_ret L ! t)
            \<and> (c = Fin 0 \<longrightarrow> strat_ret L ! t = gross_ret L ! t)"
    if all: "\<forall>i < length (sig L). sig L ! i = c"
  proof -
    have cv: "c \<in> {Fin (- 1), Fin 0, Fin 1}"
      using sig_values [OF assms(1) n0] all n0 by simp
    have t0: "turnover L ! 0 = fl_abs c"
      using turnover_nth [OF assms(1) n0] sig_shift_nth [OF assms(1) n0] all n0
      by (simp add: fl_sub_zero)
    have tt: "turnover L ! t = Fin 0" if "0 < t"
      using turnover_nth [OF assms] sig_shift_nth [OF assms] all assms(2) that cv
      by (auto simp: fl_sub_def)
    have tz: "turnover L ! t = Fin 0" if "c = Fin 0"
      using tt t0 that by (cases "t = 0") simp_all
    show ?thesis using t0 tt tz z by blast
  qed
  show ?thesis using z cs by blast
qed

text \<open>
  The classifier that is always long gives the constant signal \<open>1\<close> on the drifting
  candles: period \<open>1\<close> has no turnover and no cost, period \<open>0\<close> has the turnover \<open>1\<close>.
\<close>

theorem zero_turnover_no_cost_witness:
  "\<exists>L. backtest_returns drift_candles always_long (default_cfg\<lparr>horizon := 1\<rparr>) = Inr L
      \<and> 1 < length (sig L) \<and> (\<forall>i < length (sig L). sig L ! i = Fin 1)
      \<and> turnover L ! 0 = Fin 1 \<and> turnover L ! 1 = Fin 0
      \<and> strat_ret L ! 1 = gross_ret L ! 1"
proof -
  obtain L where r: "backtest_returns drift_candles always_long (default_cfg\<lparr>horizon := 1\<rparr>) = Inr L"
    and s: "sig L = [Fin 1, Fin 1]"
    by (rule drift_run)
  have l: "1 < length (sig L)" using s by simp
  have c: "\<forall>i < length (sig L). sig L ! i = Fin 1"
    using s by (simp add: nth_Cons split: nat.splits)
  have "turnover L ! 0 = fl_abs (Fin 1)
        \<and> (0 < (1::nat) \<longrightarrow> turnover L ! 1 = Fin 0 \<and> strat_ret L ! 1 = gross_ret L ! 1)"
    using zero_turnover_no_cost [OF r l, of "Fin 1"] c by auto
  then show ?thesis using r l c by (intro exI [of _ L]) simp
qed

text \<open>
  C7 as the specification states it fails: under the constant signal \<open>1\<close> of the same
  run, period \<open>0\<close> has the gross return \<open>0\<close> and the net return \<open>-7\<close> basis points,
  the fee and the slippage of entering the position.
\<close>

theorem constant_signal_counterexample:
  "map_sum id sig
     (backtest_returns drift_candles always_long (default_cfg\<lparr>horizon := 1\<rparr>))
     = Inr [Fin 1, Fin 1]
   \<and> map_sum id (\<lambda>L. gross_ret L ! 0)
     (backtest_returns drift_candles always_long (default_cfg\<lparr>horizon := 1\<rparr>)) = Inr (Fin 0)
   \<and> map_sum id (\<lambda>L. strat_ret L ! 0)
     (backtest_returns drift_candles always_long (default_cfg\<lparr>horizon := 1\<rparr>))
     = Inr (Fin (- (7 / 10000)))"
proof -
  obtain L where "backtest_returns drift_candles always_long (default_cfg\<lparr>horizon := 1\<rparr>) = Inr L"
    "sig L = [Fin 1, Fin 1]" "gross_ret L = [Fin 0, Fin (- (7 / 10000))]"
    "strat_ret L = [Fin (- (7 / 10000)), Fin (- (7 / 10000))]"
    by (rule drift_run)
  then show ?thesis by simp
qed

subsection \<open>Sharpe ratio\<close>

lemma foldl_add_replicate:
  "foldl fl_add (Fin a) (replicate n (Fin c)) = Fin (a + real n * c)"
  by (induction n arbitrary: a) (simp_all add: algebra_simps)

lemma np_mean_const:
  assumes "0 < n"
  shows "np_mean (replicate n (Fin c)) = Fin c"
  using assms by (simp add: np_mean_def foldl_add_replicate)

lemma np_std_const:
  assumes "0 < n"
  shows "np_std (replicate n (Fin c)) = Fin 0"
  using assms np_mean_const [of n 0]
  by (simp add: np_std_def Let_def np_mean_const fl_sub_def)

lemma sharpe_ratio_replicate:
  assumes "0 < n"
  shows "sharpe_ratio (replicate n (Fin c)) ann = Fin (c * 10 ^ 12 * ann)"
  using assms by (simp add: sharpe_ratio_def Let_def np_mean_const np_std_const)

lemma bar_to_minutes_pos:
  assumes "bar_to_minutes b = Inr mins"
  shows "1 \<le> mins"
  using assms by (auto simp: bar_to_minutes_def Let_def split: if_splits)

lemma annualization_factor_pos:
  assumes "annualization_factor b = Inr ann"
  shows "0 < ann"
proof -
  obtain mins where m: "bar_to_minutes b = Inr mins"
    and a: "ann = sqrt (real_of_int (365 * 24 * 60) / real_of_int mins)"
    using assms by (auto simp: annualization_factor_def split: sum.splits)
  have "1 \<le> mins" by (rule bar_to_minutes_pos [OF m])
  then show ?thesis unfolding a by simp
qed

lemma minutes1: "bar_to_minutes ''1m'' = Inr 1"
  by (simp add: bar_to_minutes_def bar_eval)

lemma ann1: "annualization_factor ''1m'' = Inr (sqrt 525600)"
  by (simp add: annualization_factor_def minutes1)

text \<open>
  C4, as the code has it. On a net-return series that is constant at a finite \<open>c\<close>
  the standard deviation is \<open>0\<close>, the denominator is the epsilon \<open>1 / 10 ^ 12\<close>,
  which is positive, and the Sharpe ratio is \<open>c * 10 ^ 12\<close> times the annualisation
  factor, in exact arithmetic: no division by zero, and \<open>0\<close> exactly when \<open>c\<close> is
  \<open>0\<close>.
\<close>

theorem sharpe_constant_series:
  assumes "0 < n" and "annualization_factor b = Inr ann"
  shows "sharpe_ratio (replicate n (Fin c)) ann = Fin (c * 10 ^ 12 * ann)
       \<and> (sharpe_ratio (replicate n (Fin c)) ann = Fin 0 \<longleftrightarrow> c = 0)"
proof -
  have p: "0 < ann" by (rule annualization_factor_pos [OF assms(2)])
  have s: "sharpe_ratio (replicate n (Fin c)) ann = Fin (c * 10 ^ 12 * ann)"
    by (rule sharpe_ratio_replicate [OF assms(1)])
  show ?thesis using s p by simp
qed

theorem sharpe_constant_series_witness:
  "(0::nat) < 2 \<and> annualization_factor ''1m'' = Inr (sqrt 525600)
   \<and> sharpe_ratio (replicate 2 (Fin (- (7 / 10000)))) (sqrt 525600)
       = Fin (- (7 / 10000) * 10 ^ 12 * sqrt 525600)
   \<and> sharpe_ratio (replicate 2 (Fin (- (7 / 10000)))) (sqrt 525600) \<noteq> Fin 0"
proof -
  have n: "(0::nat) < 2" by simp
  show ?thesis
    using n ann1 sharpe_constant_series [OF n ann1, of "- (7 / 10000)"] by simp
qed

lemma dyadic_locals:
  "map_sum id (\<lambda>L. (sig L, strat_ret L)) (backtest_returns dyadic_candles always_long dyadic_cfg)
   = Inr ([Fin 1, Fin 1], [Fin (- (1 / 1024)), Fin (- (1 / 1024))])"
  by (simp add: steps1 run_eval dyadic_candles_def dyadic_cfg_def always_long_def)

text \<open>
  C4 as the specification states it fails: on the candles that lose \<open>1 / 1024\<close> once,
  under the classifier that is always long and a cost rate of \<open>1 / 1024\<close>, both
  periods have the net return \<open>- 1 / 1024\<close>, and \<open>run_backtest\<close> reports the Sharpe
  ratio \<open>- (976562500 * sqrt 525600)\<close>, not \<open>0\<close>.
\<close>

theorem sharpe_constant_counterexample:
  "map_sum id strat_ret (backtest_returns dyadic_candles always_long dyadic_cfg)
     = Inr [Fin (- (1 / 1024)), Fin (- (1 / 1024))]
   \<and> map_sum id sharpe (run_backtest dyadic_candles always_long dyadic_cfg)
     = Inr (Fin (- (976562500 * sqrt 525600)))
   \<and> map_sum id sharpe (run_backtest dyadic_candles always_long dyadic_cfg) \<noteq> Inr (Fin 0)"
proof -
  obtain L where r: "backtest_returns dyadic_candles always_long dyadic_cfg = Inr L"
    and sn: "strat_ret L = [Fin (- (1 / 1024)), Fin (- (1 / 1024))]"
    and sg: "sig L = [Fin 1, Fin 1]"
    using dyadic_locals
    by (cases "backtest_returns dyadic_candles always_long dyadic_cfg") auto
  have f: "strat_ret L = replicate 2 (Fin (- (1 / 1024)))"
    using sn by (simp add: numeral_2_eq_2)
  have x: "map fst (X L) = [0, 1]"
    using backtest_returns_fields(1) [OF r]
    by (auto simp: dyadic_cfg_def default_cfg_def steps1 build_index dyadic_candles_def
        flat_candle_def isna_def upt_rec)
  have sh: "sharpe_ratio (strat_ret L) (sqrt 525600) = Fin (- (976562500 * sqrt 525600))"
    unfolding f using sharpe_ratio_replicate [of 2 "- (1 / 1024)" "sqrt 525600"] by simp
  have "\<exists>tw. trade_stats_from_series
      (zip (map fst (X L)) (map (fl_mul (Fin (initial dyadic_cfg)))
                              (np_cumprod (map (fl_add (Fin 1)) (strat_ret L)))))
      (zip (map fst (X L)) (sig L)) = Inr tw"
    unfolding x sn sg
    by (simp add: trade_stats_from_series_def astype_int_def fillna_def isna_def
        shift_fill0_def shift_opt_def index_mask_def Let_def loc_def np_cumprod_def
        dyadic_cfg_def default_cfg_def)
  then obtain tw where tw: "trade_stats_from_series
      (zip (map fst (X L)) (map (fl_mul (Fin (initial dyadic_cfg)))
                              (np_cumprod (map (fl_add (Fin 1)) (strat_ret L)))))
      (zip (map fst (X L)) (sig L)) = Inr tw" by blast
  have a: "annualization_factor (bar dyadic_cfg) = Inr (sqrt 525600)"
    by (simp add: dyadic_cfg_def default_cfg_def ann1)
  have "map_sum id sharpe (run_backtest dyadic_candles always_long dyadic_cfg)
     = Inr (Fin (- (976562500 * sqrt 525600)))"
    using r a tw sh by (simp add: run_backtest_def Let_def)
  then show ?thesis using r sn by simp
qed

subsection \<open>Trades\<close>

lemma wins_loop_bounds:
  assumes "wins_loop eq w ps = Inr w'"
  shows "w \<le> w' \<and> w' \<le> w + length ps"
  using assms
proof (induction ps arbitrary: w)
  case Nil
  then show ?case by simp
next
  case (Cons p ps)
  obtain s e where p: "p = (s, e)" by (cases p)
  from Cons.prems p obtain ve vs where
    r: "wins_loop eq (if fl_less vs ve then w + 1 else w) ps = Inr w'"
    by (auto split: sum.splits)
  from Cons.IH [OF r] show ?case by (auto split: if_splits)
qed

lemma loc_distinct:
  assumes "distinct (map fst s)" "l \<in> set (map fst s)"
  shows "\<exists>v. loc s l = Inr v"
  using assms
proof (induction s)
  case Nil
  then show ?case by simp
next
  case (Cons kv s)
  show ?case
  proof (cases "fst kv = l")
    case True
    then have "l \<notin> set (map fst s)" using Cons.prems(1) by auto
    then have "filter (\<lambda>kv. fst kv = l) s = []"
      by (auto simp: filter_empty_conv)
    then show ?thesis using True by (simp add: loc_def)
  next
    case False
    then have "l \<in> set (map fst s)" using Cons.prems(2) by auto
    with Cons.IH Cons.prems(1) obtain v where "loc s l = Inr v" by auto
    then show ?thesis using False by (simp add: loc_def)
  qed
qed

lemma wins_loop_total:
  assumes "distinct (map fst eq)"
      and "\<forall>p \<in> set ps. fst p \<in> set (map fst eq) \<and> snd p \<in> set (map fst eq)"
  shows "\<exists>w'. wins_loop eq w ps = Inr w'"
  using assms(2)
proof (induction ps arbitrary: w)
  case Nil
  then show ?case by simp
next
  case (Cons p ps)
  obtain s e where p: "p = (s, e)" by (cases p)
  obtain ve where ve: "loc eq e = Inr ve"
    using loc_distinct [OF assms(1), of e] Cons.prems p by auto
  obtain vs where vs: "loc eq s = Inr vs"
    using loc_distinct [OF assms(1), of s] Cons.prems p by auto
  have "\<forall>p \<in> set ps. fst p \<in> set (map fst eq) \<and> snd p \<in> set (map fst eq)"
    using Cons.prems by simp
  from Cons.IH [OF this] show ?case using p ve vs by simp
qed

lemma index_mask_subset:
  assumes "index_mask labels flags = Inr ix"
  shows "set ix \<subseteq> set labels"
proof -
  have "ix = map fst (filter snd (zip labels flags))"
    using assms by (simp add: index_mask_def split: if_splits)
  then have "set ix \<subseteq> fst ` set (zip labels flags)" by auto
  also have "\<dots> \<subseteq> set labels" by (auto dest: set_zip_leftD)
  finally show ?thesis .
qed

lemma length_shift_fill0: "length (shift_fill0 k xs) = length xs"
  by (simp add: shift_fill0_def length_shift_opt)

text \<open>
  C10. Whenever \<open>_trade_stats_from_series\<close> returns a trade count \<open>n\<close> and a win rate,
  the win rate is \<open>100 * wins / max n 1\<close> for a number of wins that is at most \<open>n\<close>,
  and so lies between \<open>0\<close> and \<open>100\<close>, also when \<open>n\<close> is \<open>0\<close>. It does return when
  the two series have the same length, the labels of the equity series are distinct
  and no position is infinite.
\<close>

theorem trade_stats_win_rate:
  "(\<forall>n wr. trade_stats_from_series eq ps = Inr (n, wr) \<longrightarrow>
      (\<exists>wins. wins \<le> n \<and> wr = 100 * real wins / real (if n > 0 then n else 1))
      \<and> 0 \<le> wr \<and> wr \<le> 100)
   \<and> (length eq = length ps \<and> distinct (map fst eq)
        \<and> list_all (\<lambda>v. v \<noteq> PInf \<and> v \<noteq> NInf) (map snd ps) \<longrightarrow>
        (\<exists>n wr. trade_stats_from_series eq ps = Inr (n, wr)))"
proof (intro conjI allI impI)
  fix n wr
  assume r: "trade_stats_from_series eq ps = Inr (n, wr)"
  then obtain start_idx end_idx wins where
    n: "n = min (length start_idx) (length end_idx)"
    and w: "wins_loop eq 0 (zip (take n start_idx) (take n end_idx)) = Inr wins"
    and wr: "wr = 100 * real wins / real (if n > 0 then n else 1)"
    by (auto simp: trade_stats_from_series_def Let_def split: sum.splits)
  have "length (zip (take n start_idx) (take n end_idx)) = n" using n by simp
  with wins_loop_bounds [OF w] have le: "wins \<le> n" by simp
  show "\<exists>wins. wins \<le> n \<and> wr = 100 * real wins / real (if n > 0 then n else 1)"
    using le wr by blast
  show "0 \<le> wr" using wr by simp
  show "wr \<le> 100"
  proof (cases "n > 0")
    case True
    then have "100 * real wins \<le> 100 * real n" using le by simp
    then have "100 * real wins / real n \<le> 100"
      using True by (simp add: pos_divide_le_eq)
    then show ?thesis using wr True by simp
  next
    case False
    then show ?thesis using wr le by simp
  qed
next
  assume a: "length eq = length ps \<and> distinct (map fst eq)
        \<and> list_all (\<lambda>v. v \<noteq> PInf \<and> v \<noteq> NInf) (map snd ps)"
  have fin: "list_all is_fin (fillna (Fin 0) (map snd ps))"
  proof -
    have "is_fin (if isna v then Fin 0 else v)" if "v \<noteq> PInf \<and> v \<noteq> NInf" for v
      using that by (cases v) (simp_all add: isna_def)
    then have "\<forall>p \<in> set ps. is_fin (if isna (snd p) then Fin 0 else snd p)"
      using a by (simp add: list_all_iff)
    then show ?thesis unfolding fillna_def list_all_iff by fastforce
  qed
  define pos where "pos = map (\<lambda>x. trunc_int64 (fin_val x)) (fillna (Fin 0) (map snd ps))"
  have ap: "astype_int (fillna (Fin 0) (map snd ps)) = Inr pos"
    using fin by (simp add: astype_int_def pos_def)
  have lp: "length pos = length eq" using a by (simp add: pos_def length_fillna)
  define starts where "starts = map2 (\<lambda>p q. p = 0 \<and> q \<noteq> 0) (shift_fill0 1 pos) pos"
  define ends where "ends = map2 (\<lambda>q p. q \<noteq> 0 \<and> p = 0) pos (shift_fill0 (- 1) pos)"
  have ls: "length starts = length (map fst eq)" "length ends = length (map fst eq)"
    using lp by (simp_all add: starts_def ends_def length_shift_fill0)
  obtain si where si: "index_mask (map fst eq) starts = Inr si"
    using ls by (simp add: index_mask_def)
  obtain ei where ei: "index_mask (map fst eq) ends = Inr ei"
    using ls by (simp add: index_mask_def)
  define n where "n = min (length si) (length ei)"
  have "\<forall>p \<in> set (zip (take n si) (take n ei)).
          fst p \<in> set (map fst eq) \<and> snd p \<in> set (map fst eq)"
  proof
    fix p assume p: "p \<in> set (zip (take n si) (take n ei))"
    obtain s e where se: "p = (s, e)" by (cases p)
    have "s \<in> set si" using p se by (auto dest: set_zip_leftD in_set_takeD)
    moreover have "e \<in> set ei" using p se by (auto dest: set_zip_rightD in_set_takeD)
    ultimately show "fst p \<in> set (map fst eq) \<and> snd p \<in> set (map fst eq)"
      using index_mask_subset [OF si] index_mask_subset [OF ei] se by auto
  qed
  from wins_loop_total [OF _ this, of 0] a obtain w where
    w: "wins_loop eq 0 (zip (take n si) (take n ei)) = Inr w" by blast
  show "\<exists>n wr. trade_stats_from_series eq ps = Inr (n, wr)"
    using ap si ei w
    by (simp add: trade_stats_from_series_def Let_def starts_def [symmetric]
        ends_def [symmetric] n_def [symmetric])
qed

text \<open>
  Two trades, a long one over the rows \<open>0\<close> and \<open>1\<close> that wins and a short one in
  row \<open>3\<close> that starts and ends there: a win rate of \<open>50\<close>.
\<close>

theorem trade_stats_win_rate_witness:
  "trade_stats_from_series [(0, Fin 100), (1, Fin 110), (2, Fin 105), (3, Fin 120)]
       [(0, Fin 1), (1, Fin 1), (2, Fin 0), (3, Fin (- 1))] = Inr (2, 50)
   \<and> (0::real) \<le> 50 \<and> (50::real) \<le> 100"
proof -
  let ?eq = "[(0::nat, Fin 100), (1, Fin 110), (2, Fin 105), (3, Fin 120)]"
  let ?ps = "[(0::nat, Fin 1), (1, Fin 1), (2, Fin 0), (3, Fin (- 1))]"
  have r: "trade_stats_from_series ?eq ?ps = Inr (2, 50)"
    by (simp add: trade_stats_from_series_def astype_int_def fillna_def isna_def
        shift_fill0_def shift_opt_def index_mask_def Let_def loc_def trunc_int64_def
        ceiling_minus)
  have "\<forall>n wr. trade_stats_from_series ?eq ?ps = Inr (n, wr) \<longrightarrow> 0 \<le> wr \<and> wr \<le> 100"
    using trade_stats_win_rate [of ?eq ?ps] by blast
  then have "(0::real) \<le> 50 \<and> (50::real) \<le> 100" using r by blast
  then show ?thesis using r by simp
qed

subsection \<open>A run without rows\<close>

text \<open>
  C8 is what the code intends and misses. When the builder yields no row (an empty
  candle frame, or no more candles than the horizon has steps), \<open>run_backtest\<close> does
  not reach its result: \<open>sig_shift[0] = 0\<close> raises IndexError on the empty array.
\<close>

theorem run_backtest_no_rows:
  assumes "bar_to_steps (bar cfg) (horizon cfg) = Inr steps"
      and "fst (build_from_candles df steps) = []"
  shows "run_backtest df clf cfg = Inl IndexError"
  using backtest_returns_empty [OF assms] by (simp add: run_backtest_def)

text \<open>
  Under the default configuration, a bar of one minute and a horizon of five: the empty
  frame, and the five candles of the scenario, all of whose labels are dropped.
\<close>

theorem run_backtest_no_rows_witness:
  "bar_to_steps (bar default_cfg) (horizon default_cfg) = Inr 5
   \<and> fst (build_from_candles [] 5) = []
   \<and> fst (build_from_candles scenario_candles 5) = []
   \<and> run_backtest [] always_long default_cfg = Inl IndexError
   \<and> run_backtest scenario_candles always_long default_cfg = Inl IndexError"
proof -
  have s: "bar_to_steps (bar default_cfg) (horizon default_cfg) = Inr 5"
    by (simp add: default_cfg_def steps5)
  have a: "fst (build_from_candles [] 5) = []" by (simp add: build_empty)
  have b: "fst (build_from_candles scenario_candles 5) = []"
    by (simp add: build_empty scenario_candles_def)
  show ?thesis
    using s a b run_backtest_no_rows [OF s a] run_backtest_no_rows [OF s b] by simp
qed

end
